theory Spec2Isabelle
  imports Main
begin

section \<open>The UIAuto command proxy (lib/uiauto-client.js)\<close>

text \<open>
  The class \<^verbatim>\<open>UIAutoClient\<close> relays commands to Instruments over a Unix domain
  socket. All of its code runs in event handlers of a single-threaded event loop, so
  each handler is modelled as a function from the state before the handler to the state
  after it; an async function is one handler up to its \<^verbatim>\<open>await\<close> and another one
  when it resumes, and other handlers can run in between. Closures are modelled by
  the identifiers of what they capture:
  \<^item> the callback \<^verbatim>\<open>cb\<close> of a command captures \<^verbatim>\<open>resolve\<close> and
    \<^verbatim>\<open>reject\<close> of the promise created by \<^verbatim>\<open>sendCommand\<close>; it is the index of
    that promise in \<open>futures\<close>;
  \<^item> the connection callback of a server captures \<^verbatim>\<open>resolve\<close> and
    \<^verbatim>\<open>response\<close> of the \<^verbatim>\<open>start\<close> call that created the server; the
    \<open>k\<close>-th call of \<^verbatim>\<open>start\<close> owns entry \<open>k\<close> of \<open>startFutures\<close>,
    \<open>responses\<close> and \<open>servers\<close>;
  \<^item> the closure \<^verbatim>\<open>onReceiveCommand\<close> built in the \<^verbatim>\<open>'end'\<close> handler of a
    connection captures that connection; it is the connection's index in \<open>conns\<close>.
\<close>

subsection \<open>Values\<close>

text \<open>
  What a parsed frame can hold. \<open>JUndefined\<close> is the value of a property that the
  object does not have. A number is kept as the text that JavaScript prints for it: two
  numbers are \<^verbatim>\<open>===\<close> exactly when they print alike (both zeros print as \<^verbatim>\<open>0\<close>),
  and the code does nothing else with a number than compare it and print it.
\<close>

datatype json =
  JUndefined | JNull | JBool bool | JNum string | JStr string | JArr "json list"
| JObj "(string \<times> json) list"

text \<open>
  \<^verbatim>\<open>String(v)\<close>, which is \<open>None\<close> when the conversion throws a \<^verbatim>\<open>TypeError\<close>.
  An array prints its elements separated by commas, \<^verbatim>\<open>null\<close> and
  \<^verbatim>\<open>undefined\<close> elements as nothing. An object parsed from a frame inherits
  \<^verbatim>\<open>Object.prototype.toString\<close> and prints as \<^verbatim>\<open>[object Object]\<close>, unless it has a
  key \<^verbatim>\<open>toString\<close> of its own: the value of that key is not a function, neither
  \<^verbatim>\<open>toString\<close> nor \<^verbatim>\<open>valueOf\<close> gives a primitive, and the conversion throws.
\<close>

fun js_toString :: "json \<Rightarrow> string option"
  and js_join :: "json list \<Rightarrow> string option" where
  "js_toString JUndefined = Some ''undefined''"
| "js_toString JNull = Some ''null''"
| "js_toString (JBool b) = Some (if b then ''true'' else ''false'')"
| "js_toString (JNum d) = Some d"
| "js_toString (JStr x) = Some x"
| "js_toString (JArr xs) = js_join xs"
| "js_toString (JObj kvs) =
     (if ''toString'' \<in> set (map fst kvs) then None else Some ''[object Object]'')"
| "js_join [] = Some []"
| "js_join (x # xs) =
     (case (if x = JUndefined \<or> x = JNull then Some [] else js_toString x) of
        None \<Rightarrow> None
      | Some a \<Rightarrow>
          (if xs = [] then Some a
           else (case js_join xs of None \<Rightarrow> None | Some b \<Rightarrow> Some (a @ '','' @ b))))"

text \<open>The message of \<^verbatim>\<open>new Error(v)\<close>: the empty string when \<open>v\<close> is
  \<^verbatim>\<open>undefined\<close>, and \<^verbatim>\<open>String(v)\<close> otherwise; \<open>None\<close> when the constructor
  throws.\<close>

definition error_message :: "json \<Rightarrow> string option" where
  "error_message v = (if v = JUndefined then Some [] else js_toString v)"

text \<open>\<open>Error m\<close> is an error with the message \<open>m\<close>; \<open>TypeError m\<close> is what the
  runtime throws: \<open>''cmd''\<close> and \<open>''listen''\<close> for reading that property of
  \<^verbatim>\<open>undefined\<close> or \<^verbatim>\<open>null\<close>, \<open>''primitive''\<close> for an object that cannot be
  converted to a string.\<close>

datatype js_error = Error string | TypeError string

datatype 'a promise = Pending | Fulfilled 'a | Rejected js_error

text \<open>A promise is settled at most once: \<^verbatim>\<open>resolve\<close> and \<^verbatim>\<open>reject\<close> do
  nothing on a promise that is not pending.\<close>

definition settle :: "nat \<Rightarrow> 'a promise \<Rightarrow> 'a promise list \<Rightarrow> 'a promise list" where
  "settle p v ps = (if p < length ps \<and> ps ! p = Pending then ps[p := v] else ps)"

text \<open>What a handler does: it returns, or it throws with the state as it was then.\<close>

datatype 'a outcome = Returned 'a | Threw js_error 'a

primrec state_of :: "'a outcome \<Rightarrow> 'a" where
  "state_of (Returned s) = s"
| "state_of (Threw e s) = s"

primrec returned :: "'a outcome \<Rightarrow> bool" where
  "returned (Returned s) = True"
| "returned (Threw e s) = False"

subsection \<open>The outbound frame\<close>

text \<open>\<^verbatim>\<open>JSON.stringify({cmd: x})\<close> for a string \<open>x\<close> of 8-bit characters: an
  opening brace, the key \<^verbatim>\<open>cmd\<close> in double quotes, a colon, \<open>x\<close> in double quotes
  and a closing brace. Inside the quotes the double quote and the backslash get a
  backslash in front, backspace, tab, line feed, form feed and carriage return become
  \<^verbatim>\<open>\b \t \n \f \r\<close>, any other character below 32 becomes \<^verbatim>\<open>\u00\<close> and its two
  hexadecimal digits, and every other character stands for itself.\<close>

definition hex_digit :: "nat \<Rightarrow> char" where
  "hex_digit n = ''0123456789abcdef'' ! (n mod 16)"

definition quote_char :: "char \<Rightarrow> string" where
  "quote_char c =
     (if c = CHR 0x22 then [CHR 0x5C, CHR 0x22]
      else if c = CHR 0x5C then [CHR 0x5C, CHR 0x5C]
      else if c = CHR 0x08 then [CHR 0x5C, CHR ''b'']
      else if c = CHR 0x09 then [CHR 0x5C, CHR ''t'']
      else if c = CHR 0x0A then [CHR 0x5C, CHR ''n'']
      else if c = CHR 0x0C then [CHR 0x5C, CHR ''f'']
      else if c = CHR 0x0D then [CHR 0x5C, CHR ''r'']
      else if (of_char c :: nat) < 32
        then [CHR 0x5C, CHR ''u'', CHR ''0'', CHR ''0'',
              hex_digit (of_char c div 16), hex_digit (of_char c)]
      else [c])"

definition quote_string :: "string \<Rightarrow> string" where
  "quote_string x = [CHR 0x22] @ concat (map quote_char x) @ [CHR 0x22]"

definition JSON_stringify_cmd :: "string \<Rightarrow> string" where
  "JSON_stringify_cmd x = ''{'' @ quote_string ''cmd'' @ '':'' @ quote_string x @ ''}''"

subsection \<open>The session state\<close>

definition MORE_COMMAND :: string where
  "MORE_COMMAND = ''#more''"

record command =
  cmd :: string
  cb :: nat

text \<open>What \<^verbatim>\<open>response.getResult()\<close> returns.\<close>

record uiauto_result =
  status :: json
  val :: json
  needsMoreData :: bool

text \<open>What the code calls on a connection: \<^verbatim>\<open>write\<close> with a string,
  \<^verbatim>\<open>end\<close> and \<^verbatim>\<open>destroy\<close>.\<close>

datatype sock_op = Write string | End | Destroy

datatype server_status = Created | Listening | Closed

text \<open>
  The first seven fields are the fields of the class. The others are the objects the
  closures refer to and what the event loop holds: the promises returned by
  \<^verbatim>\<open>sendCommand\<close> and by \<^verbatim>\<open>start\<close>, the buffer of each
  \<^verbatim>\<open>UIAutoResponse\<close>, the servers, the server of each accepted connection, what was
  called on the connections (in order), the errors nobody handles, and the number of
  calls of \<^verbatim>\<open>start\<close> and of \<^verbatim>\<open>shutdown\<close> that are waiting at an
  \<^verbatim>\<open>await\<close>.
\<close>

record uiauto_client =
  curCommand :: "command option"
  onReceiveCommand :: "nat option"
  commandQueue :: "command list"
  sock :: string
  socketServer :: "nat option"
  hasConnected :: bool
  currentSocket :: "nat option"
  futures :: "json promise list"
  startFutures :: "bool promise list"
  responses :: "string list"
  servers :: "server_status list"
  conns :: "nat list"
  wire :: "(nat \<times> sock_op) list"
  unhandled :: "js_error list"
  startsPending :: nat
  closesPending :: nat

definition UIAutoClient :: "string \<Rightarrow> uiauto_client" where
  "UIAutoClient sk =
     \<lparr>curCommand = None, onReceiveCommand = None, commandQueue = [], sock = sk,
      socketServer = None, hasConnected = False, currentSocket = None,
      futures = [], startFutures = [], responses = [], servers = [], conns = [],
      wire = [], unhandled = [], startsPending = 0, closesPending = 0\<rparr>"

text \<open>An exception that leaves an event handler is caught by nobody.\<close>

definition uncaught :: "uiauto_client outcome \<Rightarrow> uiauto_client" where
  "uncaught r =
     (case r of Returned s \<Rightarrow> s | Threw e s \<Rightarrow> s\<lparr>unhandled := unhandled s @ [e]\<rparr>)"

subsection \<open>The result accumulator\<close>

text \<open>Modelled from the spec: \<^verbatim>\<open>lib/uiauto-response.js\<close> is not among the sources.
  \<^verbatim>\<open>addData(chunk)\<close> appends raw bytes to the buffer and \<^verbatim>\<open>resetBuffer()\<close>
  discards the buffered bytes. \<^verbatim>\<open>getResult()\<close> is a parameter \<open>gr\<close> of the handlers
  that call it: from the buffer it gives the result and the buffer it leaves.\<close>

definition addData :: "string \<Rightarrow> string \<Rightarrow> string" where
  "addData chunk buf = buf @ chunk"

definition resetBuffer :: "string \<Rightarrow> string" where
  "resetBuffer buf = []"

type_synonym getResult = "string \<Rightarrow> uiauto_result \<times> string"

subsection \<open>sendCommand\<close>

text \<open>The callback \<^verbatim>\<open>cb\<close> built by \<^verbatim>\<open>sendCommand\<close> for promise \<open>p\<close>. The
  argument of \<^verbatim>\<open>reject\<close> is built first: when \<^verbatim>\<open>new Error(result.value)\<close>
  throws, the callback throws and the promise is left as it is.\<close>

definition call_cb :: "nat \<Rightarrow> uiauto_result \<Rightarrow> uiauto_client \<Rightarrow> uiauto_client outcome" where
  "call_cb p result s =
     (if status result = JNum ''0''
      then Returned (s\<lparr>futures := settle p (Fulfilled (val result)) (futures s)\<rparr>)
      else (case error_message (val result) of
              Some m \<Rightarrow> Returned (s\<lparr>futures := settle p (Rejected (Error m)) (futures s)\<rparr>)
            | None \<Rightarrow> Threw (TypeError ''primitive'') s))"

text \<open>The closure \<^verbatim>\<open>onReceiveCommand\<close> of the \<^verbatim>\<open>'end'\<close> handler of connection
  \<open>c\<close>. \<^verbatim>\<open>shift()\<close> of an empty array is \<^verbatim>\<open>undefined\<close>, and reading its
  \<^verbatim>\<open>cmd\<close> throws.\<close>

definition onReceiveCommand_fn :: "nat \<Rightarrow> uiauto_client \<Rightarrow> uiauto_client outcome" where
  "onReceiveCommand_fn c s =
     (let s1 = s\<lparr>onReceiveCommand := None\<rparr> in
      case commandQueue s1 of
        [] \<Rightarrow> Threw (TypeError ''cmd'') (s1\<lparr>curCommand := None\<rparr>)
      | x # q \<Rightarrow>
          Returned (s1\<lparr>curCommand := Some x, commandQueue := q,
            wire := wire s1 @ [(c, Write (JSON_stringify_cmd (cmd x))), (c, End)]\<rparr>))"

text \<open>The executor of the promise \<open>p\<close> that \<^verbatim>\<open>sendCommand\<close> returns.\<close>

definition sendCommand_executor :: "string \<Rightarrow> nat \<Rightarrow> uiauto_client \<Rightarrow> uiauto_client outcome" where
  "sendCommand_executor x p s =
     (let s1 = s\<lparr>commandQueue := commandQueue s @ [\<lparr>cmd = x, cb = p\<rparr>]\<rparr> in
      case onReceiveCommand s1 of
        Some c \<Rightarrow> onReceiveCommand_fn c s1
      | None \<Rightarrow> Returned s1)"

text \<open>\<^verbatim>\<open>new Promise(executor)\<close> rejects the promise when the executor throws.\<close>

definition sendCommand :: "string \<Rightarrow> uiauto_client \<Rightarrow> uiauto_client" where
  "sendCommand x s =
     (let p = length (futures s);
          s1 = s\<lparr>futures := futures s @ [Pending]\<rparr> in
      case sendCommand_executor x p s1 of
        Returned s2 \<Rightarrow> s2
      | Threw e s2 \<Rightarrow> s2\<lparr>futures := settle p (Rejected e) (futures s2)\<rparr>)"

subsection \<open>start\<close>

text \<open>The connection callback of server \<open>k\<close>; the new connection gets the next index
  of \<open>conns\<close>.\<close>

definition accept :: "nat \<Rightarrow> uiauto_client \<Rightarrow> uiauto_client" where
  "accept k s =
     (let s1 = (if \<not> hasConnected s
                then s\<lparr>hasConnected := True,
                       startFutures := settle k (Fulfilled True) (startFutures s)\<rparr>
                else s) in
      s1\<lparr>currentSocket := Some (length (conns s1)), conns := conns s1 @ [k]\<rparr>)"

text \<open>The handlers of connection \<open>c\<close>: \<^verbatim>\<open>'close'\<close>, data arriving through the pipe,
  and \<^verbatim>\<open>'end'\<close>. The \<^verbatim>\<open>'end'\<close> handler first deals with the command in flight
  (\<open>conn_end_first\<close>, and \<open>conn_end_result\<close> for the state it leaves), then sets up the
  next command (\<open>conn_end_next\<close>); it does not get to the second part when the callback
  of the command in flight throws.\<close>

definition conn_close :: "nat \<Rightarrow> uiauto_client \<Rightarrow> uiauto_client" where
  "conn_close c s = s\<lparr>currentSocket := None\<rparr>"

definition conn_data :: "nat \<Rightarrow> string \<Rightarrow> uiauto_client \<Rightarrow> uiauto_client" where
  "conn_data c chunk s =
     (let k = conns s ! c in s\<lparr>responses := (responses s)[k := addData chunk (responses s ! k)]\<rparr>)"

definition conn_end_first :: "getResult \<Rightarrow> nat \<Rightarrow> uiauto_client \<Rightarrow> uiauto_client outcome" where
  "conn_end_first gr c s =
     (let k = conns s ! c in
      case curCommand s of
        Some cur \<Rightarrow>
          (let (result, buf) = gr (responses s ! k);
               s1 = s\<lparr>responses := (responses s)[k := buf]\<rparr> in
           if needsMoreData result
           then Returned (s1\<lparr>commandQueue := \<lparr>cmd = MORE_COMMAND, cb = cb cur\<rparr> # commandQueue s1\<rparr>)
           else (case call_cb (cb cur) result s1 of
                   Returned s2 \<Rightarrow> Returned (s2\<lparr>curCommand := None\<rparr>)
                 | Threw e s2 \<Rightarrow> Threw e s2))
      | None \<Rightarrow> Returned (s\<lparr>responses := (responses s)[k := resetBuffer (responses s ! k)]\<rparr>))"

definition conn_end_result :: "getResult \<Rightarrow> nat \<Rightarrow> uiauto_client \<Rightarrow> uiauto_client" where
  "conn_end_result gr c s = state_of (conn_end_first gr c s)"

definition conn_end_next :: "nat \<Rightarrow> uiauto_client \<Rightarrow> uiauto_client outcome" where
  "conn_end_next c s =
     (if commandQueue s \<noteq> [] then onReceiveCommand_fn c s
      else Returned (s\<lparr>onReceiveCommand := Some c\<rparr>))"

definition conn_end :: "getResult \<Rightarrow> nat \<Rightarrow> uiauto_client \<Rightarrow> uiauto_client outcome" where
  "conn_end gr c s =
     (case conn_end_first gr c s of
        Returned s1 \<Rightarrow> conn_end_next c s1
      | Threw e s1 \<Rightarrow> Threw e s1)"

text \<open>
  \<^verbatim>\<open>start\<close>. The promise has no \<^verbatim>\<open>reject\<close>, and its executor is an async
  function. \<open>start\<close> is the executor up to its first \<^verbatim>\<open>await\<close>: it creates the
  accumulator and the server and calls \<^verbatim>\<open>rimraf\<close>. \<open>start_resume\<close> is the rest of
  the executor, which touches the state only in its last statement,
  \<^verbatim>\<open>this.socketServer.listen(this.sock)\<close>, on whatever server the field holds by
  then. The environment gives the outcome of \<^verbatim>\<open>rimraf\<close> and \<^verbatim>\<open>mkdirp\<close> and
  whether the server comes to listen. When \<^verbatim>\<open>rimraf\<close> or \<^verbatim>\<open>mkdirp\<close> fails, or
  the field is \<^verbatim>\<open>null\<close>, the promise of the executor is rejected, which nobody
  handles; when \<^verbatim>\<open>listen\<close> fails, the server throws or emits an error that nobody
  handles.
\<close>

datatype fs_outcome = FsOk | RimrafFailed js_error | MkdirpFailed js_error

datatype listen_outcome = Listens | ListenFailed js_error

definition start :: "uiauto_client \<Rightarrow> uiauto_client" where
  "start s =
     s\<lparr>startFutures := startFutures s @ [Pending],
       responses := responses s @ [[]],
       servers := servers s @ [Created],
       socketServer := Some (length (servers s)),
       startsPending := Suc (startsPending s)\<rparr>"

definition start_resume :: "fs_outcome \<Rightarrow> listen_outcome \<Rightarrow> uiauto_client \<Rightarrow> uiauto_client" where
  "start_resume fs lo s =
     (let s1 = s\<lparr>startsPending := startsPending s - 1\<rparr> in
      case fs of
        RimrafFailed e \<Rightarrow> s1\<lparr>unhandled := unhandled s1 @ [e]\<rparr>
      | MkdirpFailed e \<Rightarrow> s1\<lparr>unhandled := unhandled s1 @ [e]\<rparr>
      | FsOk \<Rightarrow>
          (case socketServer s1 of
             None \<Rightarrow> s1\<lparr>unhandled := unhandled s1 @ [TypeError ''listen'']\<rparr>
           | Some k \<Rightarrow>
               (case lo of
                  Listens \<Rightarrow> s1\<lparr>servers := (servers s1)[k := Listening]\<rparr>
                | ListenFailed e \<Rightarrow> s1\<lparr>unhandled := unhandled s1 @ [e]\<rparr>)))"

subsection \<open>shutdown\<close>

text \<open>
  \<^verbatim>\<open>shutdown\<close>. \<open>shutdown\<close> is the function up to its \<^verbatim>\<open>await\<close>: with a server
  it calls \<^verbatim>\<open>close\<close>, which stops the server from accepting connections, and waits
  for the callback; without a server it is done. \<open>shutdown_resume\<close> is the function
  from the callback of \<^verbatim>\<open>close\<close> on. The callback may never come (\<^verbatim>\<open>close\<close> waits
  for the connections of the server to end), and whether it reports an error is given by
  the environment: \<open>None\<close> when it does not. With an error the function throws and
  \<^verbatim>\<open>socketServer\<close> keeps its server. \<^verbatim>\<open>safeShutdown\<close> awaits \<^verbatim>\<open>shutdown\<close>
  and catches what it throws.
\<close>

definition shutdown :: "uiauto_client \<Rightarrow> uiauto_client" where
  "shutdown s =
     (let s1 = s\<lparr>curCommand := None, onReceiveCommand := None\<rparr>;
          s2 = (case currentSocket s1 of
                  Some c \<Rightarrow> s1\<lparr>wire := wire s1 @ [(c, End), (c, Destroy)], currentSocket := None\<rparr>
                | None \<Rightarrow> s1) in
      case socketServer s2 of
        Some k \<Rightarrow> s2\<lparr>servers := (servers s2)[k := Closed], closesPending := Suc (closesPending s2)\<rparr>
      | None \<Rightarrow> s2)"

definition shutdown_resume :: "js_error option \<Rightarrow> uiauto_client \<Rightarrow> uiauto_client outcome" where
  "shutdown_resume closing s =
     (let s1 = s\<lparr>closesPending := closesPending s - 1\<rparr> in
      case closing of
        Some e \<Rightarrow> Threw e s1
      | None \<Rightarrow> Returned (s1\<lparr>socketServer := None\<rparr>))"

definition safeShutdown :: "uiauto_client \<Rightarrow> uiauto_client" where
  "safeShutdown s = shutdown s"

definition safeShutdown_resume :: "js_error option \<Rightarrow> uiauto_client \<Rightarrow> uiauto_client outcome" where
  "safeShutdown_resume closing s =
     (case shutdown_resume closing s of
        Returned s1 \<Rightarrow> Returned s1
      | Threw e s1 \<Rightarrow> Returned s1)"

subsection \<open>Sessions\<close>

text \<open>What happens to a client: calls of its methods, and what the event loop
  delivers: a connection to a server that listens, the events of a connection that was
  accepted, and the resumption of a call of \<^verbatim>\<open>start\<close> or \<^verbatim>\<open>shutdown\<close> that
  waits. What \<^verbatim>\<open>shutdown\<close> throws goes to its caller.\<close>

datatype event =
  SendCommand string
| Start
| StartResume fs_outcome listen_outcome
| Accept nat
| Data nat string
| ConnEnd nat
| ConnClose nat
| Shutdown
| ShutdownResume "js_error option"
| SafeShutdown
| SafeShutdownResume "js_error option"

fun step :: "getResult \<Rightarrow> event \<Rightarrow> uiauto_client \<Rightarrow> uiauto_client" where
  "step gr (SendCommand x) s = sendCommand x s"
| "step gr Start s = start s"
| "step gr (StartResume fs lo) s = (if 0 < startsPending s then start_resume fs lo s else s)"
| "step gr (Accept k) s =
     (if k < length (servers s) \<and> servers s ! k = Listening then accept k s else s)"
| "step gr (Data c chunk) s = (if c < length (conns s) then conn_data c chunk s else s)"
| "step gr (ConnEnd c) s = (if c < length (conns s) then uncaught (conn_end gr c s) else s)"
| "step gr (ConnClose c) s = (if c < length (conns s) then conn_close c s else s)"
| "step gr Shutdown s = shutdown s"
| "step gr (ShutdownResume closing) s =
     (if 0 < closesPending s then state_of (shutdown_resume closing s) else s)"
| "step gr SafeShutdown s = safeShutdown s"
| "step gr (SafeShutdownResume closing) s =
     (if 0 < closesPending s then state_of (safeShutdown_resume closing s) else s)"

fun run :: "getResult \<Rightarrow> event list \<Rightarrow> uiauto_client \<Rightarrow> uiauto_client" where
  "run gr [] s = s"
| "run gr (e # es) s = run gr es (step gr e s)"

subsection \<open>Invariants of a session\<close>

text \<open>The commands that hold a callback: the one in flight, then the queue.\<close>

definition in_flight :: "uiauto_client \<Rightarrow> command list" where
  "in_flight s = (case curCommand s of None \<Rightarrow> [] | Some x \<Rightarrow> [x])"

text \<open>While the deferred hook is registered, nothing is in flight and nothing waits.\<close>

definition hook_idle :: "uiauto_client \<Rightarrow> bool" where
  "hook_idle s = (onReceiveCommand s \<noteq> None \<longrightarrow> curCommand s = None \<and> commandQueue s = [])"

text \<open>The callbacks held belong to different promises, all of them pending.\<close>

definition cbs_ok :: "json promise list \<Rightarrow> command list \<Rightarrow> bool" where
  "cbs_ok fs xs =
     (distinct (map cb xs) \<and> (\<forall>x \<in> set xs. cb x < length fs \<and> fs ! cb x = Pending))"

definition cbs_pending :: "uiauto_client \<Rightarrow> bool" where
  "cbs_pending s = cbs_ok (futures s) (in_flight s @ commandQueue s)"

text \<open>Every call of \<^verbatim>\<open>start\<close> has its promise, its accumulator and its server, and
  every connection has its server.\<close>

definition indices_ok :: "uiauto_client \<Rightarrow> bool" where
  "indices_ok s =
     (length (startFutures s) = length (servers s) \<and>
      length (responses s) = length (servers s) \<and>
      (\<forall>k \<in> set (conns s). k < length (servers s)))"

text \<open>Before the first connection no promise of \<^verbatim>\<open>start\<close> is settled.\<close>

definition start_pending :: "uiauto_client \<Rightarrow> bool" where
  "start_pending s = (\<not> hasConnected s \<longrightarrow> (\<forall>p \<in> set (startFutures s). p = Pending))"

text \<open>The frames written between two states, with their connections.\<close>

definition new_writes :: "uiauto_client \<Rightarrow> uiauto_client \<Rightarrow> (nat \<times> string) list" where
  "new_writes s s' = [(c, d). (c, Write d) \<leftarrow> drop (length (wire s)) (wire s')]"

subsection \<open>Example sessions\<close>

text \<open>An accumulator for the examples: the buffer \<open>''partial''\<close> is an incomplete
  frame, \<open>''done''\<close> is a frame of status 0, \<open>''failed''\<close> is a frame of status 7
  whose value is an object, and anything else is a frame of status 1 whose value is the
  buffer.\<close>

definition getResult_example :: getResult where
  "getResult_example buf =
     (if buf = ''partial'' then (\<lparr>status = JNull, val = JNull, needsMoreData = True\<rparr>, buf)
      else if buf = ''done''
        then (\<lparr>status = JNum ''0'', val = JStr ''abc'', needsMoreData = False\<rparr>, [])
      else if buf = ''failed''
        then (\<lparr>status = JNum ''7'', val = JObj [(''message'', JStr ''boom'')],
               needsMoreData = False\<rparr>, [])
      else (\<lparr>status = JNum ''1'', val = JStr buf, needsMoreData = False\<rparr>, []))"

text \<open>A session whose command \<open>''getSession''\<close> is in flight, while \<open>''tap''\<close> waits
  and a second connection has delivered an incomplete frame.\<close>

definition partial_session :: uiauto_client where
  "partial_session =
     run getResult_example
       [Start, StartResume FsOk Listens, Accept 0, SendCommand ''getSession'', ConnEnd 0,
        SendCommand ''tap'', Accept 0, Data 1 ''partial'']
       (UIAutoClient ''/tmp/instruments_sock'')"

text \<open>The same session when the second connection has delivered a complete frame: of
  status 0, of status 7 with an object as its value, and of status 1 with a string as its
  value.\<close>

definition done_session :: uiauto_client where
  "done_session =
     run getResult_example
       [Start, StartResume FsOk Listens, Accept 0, SendCommand ''getSession'', ConnEnd 0,
        SendCommand ''tap'', Accept 0, Data 1 ''done'']
       (UIAutoClient ''/tmp/instruments_sock'')"

definition failed_session :: uiauto_client where
  "failed_session =
     run getResult_example
       [Start, StartResume FsOk Listens, Accept 0, SendCommand ''getSession'', ConnEnd 0,
        SendCommand ''tap'', Accept 0, Data 1 ''failed'']
       (UIAutoClient ''/tmp/instruments_sock'')"

definition refused_session :: uiauto_client where
  "refused_session =
     run getResult_example
       [Start, StartResume FsOk Listens, Accept 0, SendCommand ''getSession'', ConnEnd 0,
        SendCommand ''tap'', Accept 0, Data 1 ''no such element'']
       (UIAutoClient ''/tmp/instruments_sock'')"

text \<open>A session that listens and has not been connected to.\<close>

definition listening_session :: uiauto_client where
  "listening_session =
     run getResult_example [Start, StartResume FsOk Listens]
       (UIAutoClient ''/tmp/instruments_sock'')"

text \<open>A command is submitted before the first connection, which then delivers bytes
  nobody asked for.\<close>

definition unexpected_session :: uiauto_client where
  "unexpected_session =
     run getResult_example
       [Start, StartResume FsOk Listens, SendCommand ''getSession'', Accept 0, Data 0 ''junk'']
       (UIAutoClient ''/tmp/instruments_sock'')"

text \<open>A session whose first connection is open, with no command submitted.\<close>

definition connected_session :: uiauto_client where
  "connected_session =
     run getResult_example [Start, StartResume FsOk Listens, Accept 0]
       (UIAutoClient ''/tmp/instruments_sock'')"

text \<open>The first connection has ended with nothing to send: the hook is registered.\<close>

definition waiting_session :: uiauto_client where
  "waiting_session =
     run getResult_example [Start, StartResume FsOk Listens, Accept 0, ConnEnd 0]
       (UIAutoClient ''/tmp/instruments_sock'')"

text \<open>Two connections are open, the second one accepted last, and a command waits.\<close>

definition two_connections_session :: uiauto_client where
  "two_connections_session =
     run getResult_example
       [Start, StartResume FsOk Listens, Accept 0, Accept 0, SendCommand ''tap'']
       (UIAutoClient ''/tmp/instruments_sock'')"

text \<open>A session is connected to and shut down, and the server closes.\<close>

definition closed_session :: uiauto_client where
  "closed_session =
     run getResult_example
       [Start, StartResume FsOk Listens, Accept 0, Shutdown, ShutdownResume None]
       (UIAutoClient ''/tmp/instruments_sock'')"

text \<open>It is shut down a second time and started again, the new server comes to
  listen and accepts a connection.\<close>

definition restarted_session :: uiauto_client where
  "restarted_session =
     run getResult_example [Shutdown, Start, StartResume FsOk Listens, Accept 1] closed_session"

text \<open>\<^verbatim>\<open>start\<close> on a new client when \<^verbatim>\<open>rimraf\<close> fails, and when \<^verbatim>\<open>mkdirp\<close>
  fails.\<close>

definition rimraf_failed_session :: uiauto_client where
  "rimraf_failed_session =
     start_resume (RimrafFailed (Error ''EACCES'')) Listens
       (start (UIAutoClient ''/tmp/instruments_sock''))"

definition mkdirp_failed_session :: uiauto_client where
  "mkdirp_failed_session =
     start_resume (MkdirpFailed (Error ''EACCES'')) Listens
       (start (UIAutoClient ''/tmp/instruments_sock''))"

section \<open>Properties\<close>

subsection \<open>Invariants\<close>

lemmas handler_defs =
  sendCommand_def sendCommand_executor_def onReceiveCommand_fn_def call_cb_def
  accept_def conn_close_def conn_data_def conn_end_def conn_end_first_def conn_end_result_def
  conn_end_next_def start_def start_resume_def shutdown_def shutdown_resume_def
  safeShutdown_def safeShutdown_resume_def uncaught_def

lemmas handler_splits =
  option.splits list.splits prod.splits if_splits fs_outcome.splits listen_outcome.splits
  outcome.splits

lemma run_invariant:
  assumes "P s" and "\<And>e s. P s \<Longrightarrow> P (step gr e s)"
  shows "P (run gr es s)"
  using assms(1) by (induction es arbitrary: s) (auto intro: assms(2))

lemma hook_idle_step: "hook_idle s \<Longrightarrow> hook_idle (step gr e s)"
  by (cases e) (auto simp: hook_idle_def handler_defs Let_def split: handler_splits)

lemma hook_idle_run: "hook_idle (run gr es (UIAutoClient sk))"
proof (rule run_invariant)
  show "hook_idle (UIAutoClient sk)" by (simp add: hook_idle_def UIAutoClient_def)
qed (rule hook_idle_step)

lemma indices_ok_step: "indices_ok s \<Longrightarrow> indices_ok (step gr e s)"
  by (cases e)
    (auto simp: indices_ok_def handler_defs Let_def settle_def less_Suc_eq
      split: handler_splits)

lemma indices_ok_run: "indices_ok (run gr es (UIAutoClient sk))"
proof (rule run_invariant)
  show "indices_ok (UIAutoClient sk)" by (simp add: indices_ok_def UIAutoClient_def)
qed (rule indices_ok_step)

lemma start_pending_step: "start_pending s \<Longrightarrow> start_pending (step gr e s)"
  by (cases e) (auto simp: start_pending_def handler_defs Let_def split: handler_splits)

lemma start_pending_run: "start_pending (run gr es (UIAutoClient sk))"
proof (rule run_invariant)
  show "start_pending (UIAutoClient sk)" by (simp add: start_pending_def UIAutoClient_def)
qed (rule start_pending_step)

lemma cbs_ok_suffix: "cbs_ok fs (xs @ ys) \<Longrightarrow> cbs_ok fs ys"
  by (auto simp: cbs_ok_def)

lemma cbs_ok_push:
  "cbs_ok fs xs \<Longrightarrow> cbs_ok (fs @ [Pending]) (xs @ [\<lparr>cmd = x, cb = length fs\<rparr>])"
  by (auto simp: cbs_ok_def nth_append)

lemma cbs_pending_dispatch:
  "cbs_ok (futures s) (commandQueue s) \<Longrightarrow> commandQueue s \<noteq> [] \<Longrightarrow>
   cbs_pending (state_of (onReceiveCommand_fn c s))"
  by (cases "commandQueue s")
     (auto simp: cbs_pending_def in_flight_def onReceiveCommand_fn_def Let_def)

lemma cbs_pending_sendCommand: "cbs_pending s \<Longrightarrow> cbs_pending (sendCommand x s)"
proof -
  assume a: "cbs_pending s"
  let ?n = "\<lparr>cmd = x, cb = length (futures s)\<rparr>"
  let ?s1 = "s\<lparr>futures := futures s @ [Pending], commandQueue := commandQueue s @ [?n]\<rparr>"
  from a have all: "cbs_ok (futures ?s1) (in_flight s @ commandQueue ?s1)"
    using cbs_ok_push [of "futures s" "in_flight s @ commandQueue s" x]
    by (simp add: cbs_pending_def)
  show ?thesis
  proof (cases "onReceiveCommand s")
    case None
    with all show ?thesis
      by (simp add: sendCommand_def sendCommand_executor_def Let_def cbs_pending_def in_flight_def)
  next
    case (Some c)
    from all have "cbs_ok (futures ?s1) (commandQueue ?s1)" by (rule cbs_ok_suffix)
    then have "cbs_pending (state_of (onReceiveCommand_fn c ?s1))"
      by (rule cbs_pending_dispatch) simp
    with Some show ?thesis
      by (simp add: sendCommand_def sendCommand_executor_def Let_def onReceiveCommand_fn_def
          split: list.splits)
  qed
qed

lemma cbs_pending_unhandled: "cbs_pending (s\<lparr>unhandled := u\<rparr>) = cbs_pending s"
  by (simp add: cbs_pending_def in_flight_def)

lemma cbs_pending_conn_end_threw:
  "cbs_pending s \<Longrightarrow> conn_end_first gr c s = Threw e s1 \<Longrightarrow> cbs_pending s1"
  by (auto simp: cbs_pending_def cbs_ok_def in_flight_def conn_end_first_def call_cb_def
        Let_def
      split: option.splits prod.splits if_splits outcome.splits)

lemma cbs_ok_conn_end_returned:
  "cbs_pending s \<Longrightarrow> conn_end_first gr c s = Returned s1 \<Longrightarrow>
   cbs_ok (futures s1) (commandQueue s1)"
  by (auto simp: cbs_pending_def cbs_ok_def in_flight_def conn_end_first_def call_cb_def
        settle_def Let_def nth_list_update
      split: option.splits prod.splits if_splits outcome.splits)

lemma idle_conn_end_returned:
  "conn_end_first gr c s = Returned s1 \<Longrightarrow> commandQueue s1 = [] \<Longrightarrow> curCommand s1 = None"
  by (auto simp: conn_end_first_def call_cb_def Let_def
      split: option.splits prod.splits if_splits outcome.splits)

lemma cbs_pending_conn_end: "cbs_pending s \<Longrightarrow> cbs_pending (uncaught (conn_end gr c s))"
proof -
  assume a: "cbs_pending s"
  show ?thesis
  proof (cases "conn_end_first gr c s")
    case (Threw e s1)
    with a have "cbs_pending s1" by (simp add: cbs_pending_conn_end_threw)
    with Threw show ?thesis
      by (simp add: conn_end_def uncaught_def cbs_pending_unhandled)
  next
    case (Returned s1)
    with a have ok: "cbs_ok (futures s1) (commandQueue s1)"
      by (simp add: cbs_ok_conn_end_returned)
    show ?thesis
    proof (cases "commandQueue s1 = []")
      case True
      with Returned show ?thesis using idle_conn_end_returned [OF Returned True]
        by (simp add: conn_end_def conn_end_next_def uncaught_def cbs_pending_def cbs_ok_def
            in_flight_def)
    next
      case False
      with ok have "cbs_pending (state_of (onReceiveCommand_fn c s1))"
        by (rule cbs_pending_dispatch)
      with Returned False show ?thesis
        by (simp add: conn_end_def conn_end_next_def uncaught_def onReceiveCommand_fn_def Let_def
            split: list.splits)
    qed
  qed
qed

lemma cbs_pending_step: "cbs_pending s \<Longrightarrow> cbs_pending (step gr e s)"
proof (cases e)
  case (SendCommand x)
  assume "cbs_pending s"
  then show ?thesis using SendCommand by (simp add: cbs_pending_sendCommand)
next
  case (ConnEnd c)
  assume "cbs_pending s"
  then show ?thesis using ConnEnd by (simp add: cbs_pending_conn_end)
qed (auto simp: cbs_pending_def cbs_ok_def in_flight_def start_def start_resume_def accept_def
       conn_data_def conn_close_def shutdown_def shutdown_resume_def safeShutdown_def
       safeShutdown_resume_def Let_def
     split: option.splits fs_outcome.splits listen_outcome.splits)

lemma cbs_pending_run: "cbs_pending (run gr es (UIAutoClient sk))"
proof (rule run_invariant)
  show "cbs_pending (UIAutoClient sk)"
    by (simp add: cbs_pending_def cbs_ok_def in_flight_def UIAutoClient_def)
qed (rule cbs_pending_step)

lemma connected_step:
  "hasConnected s \<Longrightarrow>
   hasConnected (step gr e s) \<and>
   (startFutures (step gr e s) = startFutures s \<or>
    startFutures (step gr e s) = startFutures s @ [Pending])"
  by (cases e) (auto simp: handler_defs Let_def split: handler_splits)

lemma connected_run:
  "hasConnected s \<Longrightarrow>
   hasConnected (run gr es s) \<and>
   (\<exists>n. startFutures (run gr es s) = startFutures s @ replicate n Pending)"
proof (induction es arbitrary: s)
  case Nil
  then show ?case by simp
next
  case (Cons e es)
  from Cons.prems have c: "hasConnected (step gr e s)"
    and f: "startFutures (step gr e s) = startFutures s \<or>
            startFutures (step gr e s) = startFutures s @ [Pending]"
    using connected_step [of s gr e] by auto
  from Cons.IH [OF c] obtain n where
    h: "hasConnected (run gr es (step gr e s))"
    and n: "startFutures (run gr es (step gr e s)) = startFutures (step gr e s) @ replicate n Pending"
    by auto
  from f show ?case
  proof
    assume "startFutures (step gr e s) = startFutures s"
    with h n show ?thesis by auto
  next
    assume "startFutures (step gr e s) = startFutures s @ [Pending]"
    with n have "startFutures (run gr es (step gr e s)) = startFutures s @ replicate (Suc n) Pending"
      by simp
    with h show ?thesis unfolding run.simps by blast
  qed
qed

lemma accept_again:
  "hasConnected s \<Longrightarrow> startFutures (step gr (Accept j) s) = startFutures s"
  by (simp add: accept_def Let_def)

subsection \<open>The frame encoder\<close>

lemma of_char_controls:
  "(of_char (CHR 0x08) :: nat) = 8" "(of_char (CHR 0x09) :: nat) = 9"
  "(of_char (CHR 0x0A) :: nat) = 10" "(of_char (CHR 0x0C) :: nat) = 12"
  "(of_char (CHR 0x0D) :: nat) = 13"
  by simp_all

lemma quote_char_plain:
  assumes "32 \<le> (of_char ch :: nat)" and "ch \<noteq> CHR 0x22" and "ch \<noteq> CHR 0x5C"
  shows "quote_char ch = [ch]"
proof -
  have "ch \<noteq> CHR 0x08" "ch \<noteq> CHR 0x09" "ch \<noteq> CHR 0x0A" "ch \<noteq> CHR 0x0C" "ch \<noteq> CHR 0x0D"
    using assms(1) of_char_controls by fastforce+
  with assms show ?thesis unfolding quote_char_def by simp
qed

lemma quote_chars_plain:
  "\<forall>ch \<in> set y. 32 \<le> (of_char ch :: nat) \<and> ch \<noteq> CHR 0x22 \<and> ch \<noteq> CHR 0x5C \<Longrightarrow>
   concat (map quote_char y) = y"
  by (induction y) (simp_all add: quote_char_plain)

lemma JSON_stringify_cmd_eq:
  "JSON_stringify_cmd y =
     ''{'' @ [CHR 0x22] @ ''cmd'' @ [CHR 0x22] @ '':'' @ [CHR 0x22] @
     concat (map quote_char y) @ [CHR 0x22] @ ''}''"
  by (simp add: JSON_stringify_cmd_def quote_string_def quote_char_def)

subsection \<open>The example sessions, evaluated\<close>

lemmas example_defs =
  UIAutoClient_def handler_defs settle_def addData_def resetBuffer_def Let_def
  getResult_example_def error_message_def

lemma partial_session_eq:
  "partial_session =
     \<lparr>curCommand = Some \<lparr>cmd = ''getSession'', cb = 0\<rparr>, onReceiveCommand = None,
      commandQueue = [\<lparr>cmd = ''tap'', cb = 1\<rparr>], sock = ''/tmp/instruments_sock'',
      socketServer = Some 0, hasConnected = True, currentSocket = Some 1,
      futures = [Pending, Pending], startFutures = [Fulfilled True],
      responses = [''partial''], servers = [Listening], conns = [0, 0],
      wire = [(0, Write (JSON_stringify_cmd ''getSession'')), (0, End)], unhandled = [],
      startsPending = 0, closesPending = 0\<rparr>"
  by (simp add: partial_session_def example_defs)

lemma done_session_eq:
  "done_session =
     \<lparr>curCommand = Some \<lparr>cmd = ''getSession'', cb = 0\<rparr>, onReceiveCommand = None,
      commandQueue = [\<lparr>cmd = ''tap'', cb = 1\<rparr>], sock = ''/tmp/instruments_sock'',
      socketServer = Some 0, hasConnected = True, currentSocket = Some 1,
      futures = [Pending, Pending], startFutures = [Fulfilled True],
      responses = [''done''], servers = [Listening], conns = [0, 0],
      wire = [(0, Write (JSON_stringify_cmd ''getSession'')), (0, End)], unhandled = [],
      startsPending = 0, closesPending = 0\<rparr>"
  by (simp add: done_session_def example_defs)

lemma failed_session_eq:
  "failed_session =
     \<lparr>curCommand = Some \<lparr>cmd = ''getSession'', cb = 0\<rparr>, onReceiveCommand = None,
      commandQueue = [\<lparr>cmd = ''tap'', cb = 1\<rparr>], sock = ''/tmp/instruments_sock'',
      socketServer = Some 0, hasConnected = True, currentSocket = Some 1,
      futures = [Pending, Pending], startFutures = [Fulfilled True],
      responses = [''failed''], servers = [Listening], conns = [0, 0],
      wire = [(0, Write (JSON_stringify_cmd ''getSession'')), (0, End)], unhandled = [],
      startsPending = 0, closesPending = 0\<rparr>"
  by (simp add: failed_session_def example_defs)

lemma refused_session_eq:
  "refused_session =
     \<lparr>curCommand = Some \<lparr>cmd = ''getSession'', cb = 0\<rparr>, onReceiveCommand = None,
      commandQueue = [\<lparr>cmd = ''tap'', cb = 1\<rparr>], sock = ''/tmp/instruments_sock'',
      socketServer = Some 0, hasConnected = True, currentSocket = Some 1,
      futures = [Pending, Pending], startFutures = [Fulfilled True],
      responses = [''no such element''], servers = [Listening], conns = [0, 0],
      wire = [(0, Write (JSON_stringify_cmd ''getSession'')), (0, End)], unhandled = [],
      startsPending = 0, closesPending = 0\<rparr>"
  by (simp add: refused_session_def example_defs)

lemma listening_session_eq:
  "listening_session =
     \<lparr>curCommand = None, onReceiveCommand = None, commandQueue = [],
      sock = ''/tmp/instruments_sock'', socketServer = Some 0, hasConnected = False,
      currentSocket = None, futures = [], startFutures = [Pending], responses = [[]],
      servers = [Listening], conns = [], wire = [], unhandled = [],
      startsPending = 0, closesPending = 0\<rparr>"
  by (simp add: listening_session_def example_defs)

lemma unexpected_session_eq:
  "unexpected_session =
     \<lparr>curCommand = None, onReceiveCommand = None,
      commandQueue = [\<lparr>cmd = ''getSession'', cb = 0\<rparr>], sock = ''/tmp/instruments_sock'',
      socketServer = Some 0, hasConnected = True, currentSocket = Some 0,
      futures = [Pending], startFutures = [Fulfilled True], responses = [''junk''],
      servers = [Listening], conns = [0], wire = [], unhandled = [],
      startsPending = 0, closesPending = 0\<rparr>"
  by (simp add: unexpected_session_def example_defs)

lemma connected_session_eq:
  "connected_session =
     \<lparr>curCommand = None, onReceiveCommand = None, commandQueue = [],
      sock = ''/tmp/instruments_sock'', socketServer = Some 0, hasConnected = True,
      currentSocket = Some 0, futures = [], startFutures = [Fulfilled True],
      responses = [[]], servers = [Listening], conns = [0], wire = [], unhandled = [],
      startsPending = 0, closesPending = 0\<rparr>"
  by (simp add: connected_session_def example_defs)

lemma waiting_session_eq:
  "waiting_session =
     \<lparr>curCommand = None, onReceiveCommand = Some 0, commandQueue = [],
      sock = ''/tmp/instruments_sock'', socketServer = Some 0, hasConnected = True,
      currentSocket = Some 0, futures = [], startFutures = [Fulfilled True],
      responses = [[]], servers = [Listening], conns = [0], wire = [], unhandled = [],
      startsPending = 0, closesPending = 0\<rparr>"
  by (simp add: waiting_session_def example_defs)

lemma two_connections_session_eq:
  "two_connections_session =
     \<lparr>curCommand = None, onReceiveCommand = None,
      commandQueue = [\<lparr>cmd = ''tap'', cb = 0\<rparr>], sock = ''/tmp/instruments_sock'',
      socketServer = Some 0, hasConnected = True, currentSocket = Some 1,
      futures = [Pending], startFutures = [Fulfilled True], responses = [[]],
      servers = [Listening], conns = [0, 0], wire = [], unhandled = [],
      startsPending = 0, closesPending = 0\<rparr>"
  by (simp add: two_connections_session_def example_defs)

lemma closed_session_eq:
  "closed_session =
     \<lparr>curCommand = None, onReceiveCommand = None, commandQueue = [],
      sock = ''/tmp/instruments_sock'', socketServer = None, hasConnected = True,
      currentSocket = None, futures = [], startFutures = [Fulfilled True],
      responses = [[]], servers = [Closed], conns = [0],
      wire = [(0, End), (0, Destroy)], unhandled = [],
      startsPending = 0, closesPending = 0\<rparr>"
  by (simp add: closed_session_def example_defs)

text \<open>The frames of the examples, character by character.\<close>

lemma frame_getSession:
  "JSON_stringify_cmd ''getSession'' =
     [CHR ''{'', CHR 0x22, CHR ''c'', CHR ''m'', CHR ''d'', CHR 0x22, CHR '':'', CHR 0x22,
      CHR ''g'', CHR ''e'', CHR ''t'', CHR ''S'', CHR ''e'', CHR ''s'', CHR ''s'', CHR ''i'',
      CHR ''o'', CHR ''n'', CHR 0x22, CHR ''}'']"
  by (simp add: JSON_stringify_cmd_def quote_string_def quote_char_def)

lemma frame_tap:
  "JSON_stringify_cmd ''tap'' =
     [CHR ''{'', CHR 0x22, CHR ''c'', CHR ''m'', CHR ''d'', CHR 0x22, CHR '':'', CHR 0x22,
      CHR ''t'', CHR ''a'', CHR ''p'', CHR 0x22, CHR ''}'']"
  by (simp add: JSON_stringify_cmd_def quote_string_def quote_char_def)

subsection \<open>The dispatch hook\<close>

text \<open>
  C9. The closure \<^verbatim>\<open>onReceiveCommand\<close> throws exactly when it finds the queue empty,
  and neither of its two callers lets that happen: the executor of \<^verbatim>\<open>sendCommand\<close>
  calls it after pushing the new command, and the \<^verbatim>\<open>'end'\<close> handler calls it only
  when the queue has an element. So the executor and the part of the \<^verbatim>\<open>'end'\<close>
  handler that sets up the next command return, whatever the state, and the promise of
  \<^verbatim>\<open>sendCommand\<close> is not rejected by an exception of its executor. The \<^verbatim>\<open>'end'\<close>
  handler as a whole returns exactly when its first part does (there the callback of the
  command in flight can throw, before the hook is built), and it never throws what the
  hook throws.
\<close>

theorem onReceiveCommand_queue_nonempty:
  "returned (onReceiveCommand_fn c s) = (commandQueue s \<noteq> []) \<and>
   returned (sendCommand_executor x p s) \<and>
   returned (conn_end_next c s) \<and>
   returned (conn_end gr c s) = returned (conn_end_first gr c s) \<and>
   (\<forall>s'. conn_end gr c s \<noteq> Threw (TypeError ''cmd'') s') \<and>
   futures (sendCommand x s) ! length (futures s) = Pending"
  by (auto simp: handler_defs Let_def settle_def split: handler_splits)

theorem onReceiveCommand_queue_nonempty_witness:
  "commandQueue connected_session = [] \<and>
   \<not> returned (onReceiveCommand_fn 0 connected_session) \<and>
   returned (conn_end getResult_example 0 connected_session) \<and>
   returned (sendCommand_executor ''tap'' 0 waiting_session) \<and>
   futures (sendCommand ''tap'' waiting_session) = [Pending]"
  using onReceiveCommand_queue_nonempty [of 0 connected_session "''tap''" 0 getResult_example]
    onReceiveCommand_queue_nonempty [of 0 waiting_session "''tap''" 0 getResult_example]
  by (simp add: connected_session_eq waiting_session_eq handler_defs resetBuffer_def Let_def)

subsection \<open>Incomplete frames\<close>

text \<open>
  C3. When a command is in flight and the accumulator reports that it needs more data,
  the \<^verbatim>\<open>'end'\<close> handler puts a command with the identifier \<^verbatim>\<open>'#more'\<close> and the
  callback of the command in flight at the head of the queue, and settles no promise.
  The handler then sends that very command: after the event it is the command in
  flight, its frame has been written on the connection, and the queue is as before.
\<close>

theorem conn_end_needs_more_data:
  assumes "curCommand s = Some cur"
    and "gr (responses s ! (conns s ! c)) = (r, buf)"
    and "needsMoreData r"
  shows "commandQueue (conn_end_result gr c s) = \<lparr>cmd = MORE_COMMAND, cb = cb cur\<rparr> # commandQueue s \<and>
         futures (conn_end_result gr c s) = futures s \<and>
         conn_end gr c s =
           Returned (s\<lparr>responses := (responses s)[conns s ! c := buf],
                       onReceiveCommand := None,
                       curCommand := Some \<lparr>cmd = MORE_COMMAND, cb = cb cur\<rparr>,
                       wire := wire s @ [(c, Write (JSON_stringify_cmd MORE_COMMAND)), (c, End)]\<rparr>)"
  using assms by (simp add: handler_defs Let_def)

theorem conn_end_needs_more_data_witness:
  "curCommand partial_session = Some \<lparr>cmd = ''getSession'', cb = 0\<rparr> \<and>
   needsMoreData (fst (getResult_example (responses partial_session ! (conns partial_session ! 1)))) \<and>
   commandQueue (conn_end_result getResult_example 1 partial_session) =
     [\<lparr>cmd = ''#more'', cb = 0\<rparr>, \<lparr>cmd = ''tap'', cb = 1\<rparr>] \<and>
   futures (state_of (conn_end getResult_example 1 partial_session)) = [Pending, Pending] \<and>
   curCommand (state_of (conn_end getResult_example 1 partial_session)) =
     Some \<lparr>cmd = ''#more'', cb = 0\<rparr> \<and>
   commandQueue (state_of (conn_end getResult_example 1 partial_session)) =
     [\<lparr>cmd = ''tap'', cb = 1\<rparr>]"
proof -
  have h1: "curCommand partial_session = Some \<lparr>cmd = ''getSession'', cb = 0\<rparr>"
    by (simp add: partial_session_eq)
  have h2: "getResult_example (responses partial_session ! (conns partial_session ! 1)) =
      (\<lparr>status = JNull, val = JNull, needsMoreData = True\<rparr>, ''partial'')"
    by (simp add: partial_session_eq getResult_example_def)
  have h3: "needsMoreData \<lparr>status = JNull, val = JNull, needsMoreData = True\<rparr>"
    by simp
  show ?thesis
    using conn_end_needs_more_data
      [where gr = getResult_example and s = partial_session and c = 1, OF h1 h2 h3] h1 h2
    by (simp add: partial_session_eq MORE_COMMAND_def)
qed

subsection \<open>Unexpected frames\<close>

text \<open>
  C8. In a session, when connection \<open>c\<close> ends and no command is in flight, the
  \<^verbatim>\<open>'end'\<close> handler returns (nothing is thrown), the buffer of the accumulator is
  empty afterwards, and no promise changes, neither one of \<^verbatim>\<open>sendCommand\<close> nor one
  of \<^verbatim>\<open>start\<close>. The handler still sets up the next command: with a command waiting
  it makes the head of the queue the command in flight and writes its frame on \<open>c\<close>,
  followed by the half-close; with an empty queue it registers the hook.
\<close>

theorem conn_end_without_command:
  assumes "s = run gr evs (UIAutoClient sk)"
    and "c < length (conns s)"
    and "curCommand s = None"
  shows "let s' = step gr (ConnEnd c) s in
     returned (conn_end gr c s) \<and>
     responses s' ! (conns s ! c) = [] \<and>
     responses s' = (responses s)[conns s ! c := []] \<and>
     futures s' = futures s \<and>
     startFutures s' = startFutures s \<and>
     (case commandQueue s of
        [] \<Rightarrow> onReceiveCommand s' = Some c \<and> curCommand s' = None \<and> commandQueue s' = [] \<and>
              wire s' = wire s
      | x # q \<Rightarrow> onReceiveCommand s' = None \<and> curCommand s' = Some x \<and> commandQueue s' = q \<and>
              wire s' = wire s @ [(c, Write (JSON_stringify_cmd (cmd x))), (c, End)])"
proof -
  have "indices_ok s" using assms(1) by (simp add: indices_ok_run)
  with assms(2) have "conns s ! c < length (responses s)"
    by (simp add: indices_ok_def)
  with assms(2,3) show ?thesis
    by (simp add: handler_defs resetBuffer_def Let_def split: list.splits)
qed

theorem conn_end_without_command_witness:
  "curCommand unexpected_session = None \<and>
   responses unexpected_session = [''junk''] \<and>
   returned (conn_end getResult_example 0 unexpected_session) \<and>
   responses (step getResult_example (ConnEnd 0) unexpected_session) = [[]] \<and>
   futures (step getResult_example (ConnEnd 0) unexpected_session) = [Pending] \<and>
   curCommand (step getResult_example (ConnEnd 0) unexpected_session) =
     Some \<lparr>cmd = ''getSession'', cb = 0\<rparr> \<and>
   wire (step getResult_example (ConnEnd 0) unexpected_session) =
     [(0, Write (JSON_stringify_cmd ''getSession'')), (0, End)]"
proof -
  have h2: "0 < length (conns unexpected_session)"
    and h3: "curCommand unexpected_session = None"
    by (simp_all add: unexpected_session_eq)
  show ?thesis
    using conn_end_without_command [OF unexpected_session_def h2 h3] h3
    by (simp add: unexpected_session_eq Let_def)
qed

subsection \<open>Final results\<close>

text \<open>
  C2, as the code has it. In a session, when connection \<open>c\<close> ends while the command
  \<open>cur\<close> is in flight and the accumulator gives a result \<open>r\<close> that is final, the
  promise of \<open>cur\<close> is pending. If the status of \<open>r\<close> is the number 0, the promise is
  fulfilled with exactly the value of \<open>r\<close>. For any other status it is rejected with
  \<^verbatim>\<open>new Error(value)\<close>, whose message is the string that JavaScript converts the
  value to, whenever there is one: the value itself when the value is a string. No
  other promise changes.
\<close>

theorem final_result_settles_future:
  assumes "s = run gr evs (UIAutoClient sk)"
    and "c < length (conns s)"
    and "curCommand s = Some cur"
    and "gr (responses s ! (conns s ! c)) = (r, buf)"
    and "\<not> needsMoreData r"
  shows "let s' = step gr (ConnEnd c) s in
     cb cur < length (futures s) \<and>
     futures s ! cb cur = Pending \<and>
     (status r = JNum ''0'' \<longrightarrow> futures s' = (futures s)[cb cur := Fulfilled (val r)]) \<and>
     (\<forall>m. status r \<noteq> JNum ''0'' \<longrightarrow> error_message (val r) = Some m \<longrightarrow>
          futures s' = (futures s)[cb cur := Rejected (Error m)]) \<and>
     (\<forall>x. status r \<noteq> JNum ''0'' \<longrightarrow> val r = JStr x \<longrightarrow>
          futures s' ! cb cur = Rejected (Error x)) \<and>
     (\<forall>x. error_message (JStr x) = Some x) \<and>
     (\<forall>d. error_message (JNum d) = Some d) \<and>
     error_message (JBool True) = Some ''true'' \<and>
     error_message (JBool False) = Some ''false'' \<and>
     error_message JNull = Some ''null'' \<and>
     error_message JUndefined = Some [] \<and>
     error_message (JArr [JNum ''1'', JNull, JArr [JStr ''a'', JBool True]]) = Some ''1,,a,true'' \<and>
     (\<forall>kvs. ''toString'' \<notin> set (map fst kvs) \<longrightarrow>
          error_message (JObj kvs) = Some ''[object Object]'')"
proof -
  have "cbs_pending s" using assms(1) by (simp add: cbs_pending_run)
  with assms(3) have p: "cb cur < length (futures s)" "futures s ! cb cur = Pending"
    by (simp_all add: cbs_pending_def cbs_ok_def in_flight_def)
  with assms(2-5) have settled: "let s' = step gr (ConnEnd c) s in
     cb cur < length (futures s) \<and>
     futures s ! cb cur = Pending \<and>
     (status r = JNum ''0'' \<longrightarrow> futures s' = (futures s)[cb cur := Fulfilled (val r)]) \<and>
     (\<forall>m. status r \<noteq> JNum ''0'' \<longrightarrow> error_message (val r) = Some m \<longrightarrow>
          futures s' = (futures s)[cb cur := Rejected (Error m)]) \<and>
     (\<forall>x. status r \<noteq> JNum ''0'' \<longrightarrow> val r = JStr x \<longrightarrow>
          futures s' ! cb cur = Rejected (Error x))"
    by (auto simp: handler_defs settle_def error_message_def Let_def split: list.splits)
  have messages: "\<forall>x. error_message (JStr x) = Some x"
    "\<forall>d. error_message (JNum d) = Some d"
    "error_message (JBool True) = Some ''true''"
    "error_message (JBool False) = Some ''false''"
    "error_message JNull = Some ''null''"
    "error_message JUndefined = Some []"
    "error_message (JArr [JNum ''1'', JNull, JArr [JStr ''a'', JBool True]]) = Some ''1,,a,true''"
    "\<forall>kvs. ''toString'' \<notin> set (map fst kvs) \<longrightarrow>
       error_message (JObj kvs) = Some ''[object Object]''"
    by (simp_all add: error_message_def)
  from settled messages show ?thesis
    unfolding Let_def by - (elim conjE, (intro conjI; assumption))
qed

theorem final_result_settles_future_witness:
  "curCommand done_session = Some \<lparr>cmd = ''getSession'', cb = 0\<rparr> \<and>
   getResult_example (responses done_session ! (conns done_session ! 1)) =
     (\<lparr>status = JNum ''0'', val = JStr ''abc'', needsMoreData = False\<rparr>, []) \<and>
   futures done_session ! 0 = Pending \<and>
   futures (step getResult_example (ConnEnd 1) done_session) = [Fulfilled (JStr ''abc''), Pending] \<and>
   curCommand refused_session = Some \<lparr>cmd = ''getSession'', cb = 0\<rparr> \<and>
   getResult_example (responses refused_session ! (conns refused_session ! 1)) =
     (\<lparr>status = JNum ''1'', val = JStr ''no such element'', needsMoreData = False\<rparr>, []) \<and>
   futures (step getResult_example (ConnEnd 1) refused_session) =
     [Rejected (Error ''no such element''), Pending]"
proof -
  have h2: "1 < length (conns done_session)"
    and h3: "curCommand done_session = Some \<lparr>cmd = ''getSession'', cb = 0\<rparr>"
    and h4: "getResult_example (responses done_session ! (conns done_session ! 1)) =
      (\<lparr>status = JNum ''0'', val = JStr ''abc'', needsMoreData = False\<rparr>, [])"
    and h5: "\<not> needsMoreData \<lparr>status = JNum ''0'', val = JStr ''abc'', needsMoreData = False\<rparr>"
    by (simp_all add: done_session_eq getResult_example_def)
  have k2: "1 < length (conns refused_session)"
    and k3: "curCommand refused_session = Some \<lparr>cmd = ''getSession'', cb = 0\<rparr>"
    and k4: "getResult_example (responses refused_session ! (conns refused_session ! 1)) =
      (\<lparr>status = JNum ''1'', val = JStr ''no such element'', needsMoreData = False\<rparr>, [])"
    and k5: "\<not> needsMoreData
      \<lparr>status = JNum ''1'', val = JStr ''no such element'', needsMoreData = False\<rparr>"
    by (simp_all add: refused_session_eq getResult_example_def)
  show ?thesis
    using final_result_settles_future
        [where gr = getResult_example and c = 1, OF done_session_def h2 h3 h4 h5]
      final_result_settles_future
        [where gr = getResult_example and c = 1, OF refused_session_def k2 k3 k4 k5]
      h3 h4 k3 k4
    by (simp add: Let_def done_session_eq refused_session_eq error_message_def)
qed

text \<open>
  C2 fails as stated: the message of the error is a string, and it is the value only
  when the value is a string. For a frame of status 7 whose value is the object
  \<^verbatim>\<open>{"message": "boom"}\<close> the promise is rejected with an error whose message is
  \<^verbatim>\<open>[object Object]\<close>.
\<close>

theorem error_message_counterexample:
  "curCommand failed_session = Some \<lparr>cmd = ''getSession'', cb = 0\<rparr> \<and>
   getResult_example (responses failed_session ! (conns failed_session ! 1)) =
     (\<lparr>status = JNum ''7'', val = JObj [(''message'', JStr ''boom'')], needsMoreData = False\<rparr>, []) \<and>
   futures (step getResult_example (ConnEnd 1) failed_session) ! 0 =
     Rejected (Error ''[object Object]'') \<and>
   JStr ''[object Object]'' \<noteq> JObj [(''message'', JStr ''boom'')]"
  by (simp add: failed_session_eq example_defs)

subsection \<open>Sending the next command\<close>

text \<open>
  C5, as the code has it. When the first part of the \<^verbatim>\<open>'end'\<close> handler of connection
  \<open>c\<close> has returned (state \<open>s1\<close>): if the queue has a head, the head becomes the command
  in flight, the queue loses it, and the frame of its identifier is written on \<open>c\<close>,
  the connection whose \<^verbatim>\<open>'end'\<close> event this is, followed by the half-close of \<open>c\<close>;
  nothing else changes. If the queue is empty, the hook is registered and nothing else
  changes, and then the next \<^verbatim>\<open>sendCommand\<close>, whatever its identifier, does the same
  dispatch at once: the new command is in flight, its frame is written on \<open>c\<close> followed
  by the half-close, and the hook is cleared. The frame of an identifier \<open>y\<close> is
  \<^verbatim>\<open>{"cmd":"\<close>, the characters of \<open>y\<close> with their escapes, and \<^verbatim>\<open>"}\<close>; a
  character from 32 on other than the double quote and the backslash is written as it
  is, so that the frame of an identifier of such characters is \<^verbatim>\<open>{"cmd":"y"}\<close>.
\<close>

theorem conn_end_dispatches_next:
  assumes "conn_end_first gr c s = Returned s1"
  shows "(case commandQueue s1 of
        x # q \<Rightarrow>
          conn_end gr c s =
            Returned (s1\<lparr>onReceiveCommand := None, curCommand := Some x, commandQueue := q,
              wire := wire s1 @
                [(c, Write (''{'' @ [CHR 0x22] @ ''cmd'' @ [CHR 0x22] @ '':'' @ [CHR 0x22] @
                       concat (map quote_char (cmd x)) @ [CHR 0x22] @ ''}'')),
                 (c, End)]\<rparr>)
      | [] \<Rightarrow>
          conn_end gr c s = Returned (s1\<lparr>onReceiveCommand := Some c\<rparr>) \<and>
          (\<forall>y. sendCommand y (s1\<lparr>onReceiveCommand := Some c\<rparr>) =
             s1\<lparr>onReceiveCommand := None,
                 curCommand := Some \<lparr>cmd = y, cb = length (futures s1)\<rparr>,
                 futures := futures s1 @ [Pending],
                 wire := wire s1 @
                   [(c, Write (''{'' @ [CHR 0x22] @ ''cmd'' @ [CHR 0x22] @ '':'' @ [CHR 0x22] @
                          concat (map quote_char y) @ [CHR 0x22] @ ''}'')),
                    (c, End)]\<rparr>)) \<and>
     (\<forall>y. (\<forall>ch \<in> set y. 32 \<le> (of_char ch :: nat) \<and> ch \<noteq> CHR 0x22 \<and> ch \<noteq> CHR 0x5C) \<longrightarrow>
          JSON_stringify_cmd y =
            ''{'' @ [CHR 0x22] @ ''cmd'' @ [CHR 0x22] @ '':'' @ [CHR 0x22] @ y @ [CHR 0x22] @ ''}'') \<and>
     quote_char (CHR 0x22) = [CHR 0x5C, CHR 0x22] \<and>
     quote_char (CHR 0x5C) = [CHR 0x5C, CHR 0x5C] \<and>
     quote_char (CHR 0x08) = [CHR 0x5C, CHR ''b''] \<and>
     quote_char (CHR 0x09) = [CHR 0x5C, CHR ''t''] \<and>
     quote_char (CHR 0x0A) = [CHR 0x5C, CHR ''n''] \<and>
     quote_char (CHR 0x0C) = [CHR 0x5C, CHR ''f''] \<and>
     quote_char (CHR 0x0D) = [CHR 0x5C, CHR ''r''] \<and>
     quote_char (CHR 0x00) = [CHR 0x5C, CHR ''u'', CHR ''0'', CHR ''0'', CHR ''0'', CHR ''0''] \<and>
     quote_char (CHR 0x1F) = [CHR 0x5C, CHR ''u'', CHR ''0'', CHR ''0'', CHR ''1'', CHR ''f'']"
proof -
  note frame = JSON_stringify_cmd_eq
  have dispatch: "case commandQueue s1 of
        x # q \<Rightarrow>
          conn_end gr c s =
            Returned (s1\<lparr>onReceiveCommand := None, curCommand := Some x, commandQueue := q,
              wire := wire s1 @ [(c, Write (JSON_stringify_cmd (cmd x))), (c, End)]\<rparr>)
      | [] \<Rightarrow>
          conn_end gr c s = Returned (s1\<lparr>onReceiveCommand := Some c\<rparr>) \<and>
          (\<forall>y. sendCommand y (s1\<lparr>onReceiveCommand := Some c\<rparr>) =
             s1\<lparr>onReceiveCommand := None,
                 curCommand := Some \<lparr>cmd = y, cb = length (futures s1)\<rparr>,
                 futures := futures s1 @ [Pending],
                 wire := wire s1 @ [(c, Write (JSON_stringify_cmd y)), (c, End)]\<rparr>)"
    using assms
    by (simp add: conn_end_def conn_end_next_def onReceiveCommand_fn_def sendCommand_def
        sendCommand_executor_def Let_def split: list.splits)
  have escapes: "quote_char (CHR 0x22) = [CHR 0x5C, CHR 0x22]"
    "quote_char (CHR 0x5C) = [CHR 0x5C, CHR 0x5C]"
    "quote_char (CHR 0x08) = [CHR 0x5C, CHR ''b'']"
    "quote_char (CHR 0x09) = [CHR 0x5C, CHR ''t'']"
    "quote_char (CHR 0x0A) = [CHR 0x5C, CHR ''n'']"
    "quote_char (CHR 0x0C) = [CHR 0x5C, CHR ''f'']"
    "quote_char (CHR 0x0D) = [CHR 0x5C, CHR ''r'']"
    "quote_char (CHR 0x00) = [CHR 0x5C, CHR ''u'', CHR ''0'', CHR ''0'', CHR ''0'', CHR ''0'']"
    "quote_char (CHR 0x1F) = [CHR 0x5C, CHR ''u'', CHR ''0'', CHR ''0'', CHR ''1'', CHR ''f'']"
    by (simp_all add: quote_char_def hex_digit_def)
  from dispatch have explicit: "case commandQueue s1 of
        x # q \<Rightarrow>
          conn_end gr c s =
            Returned (s1\<lparr>onReceiveCommand := None, curCommand := Some x, commandQueue := q,
              wire := wire s1 @
                [(c, Write (''{'' @ [CHR 0x22] @ ''cmd'' @ [CHR 0x22] @ '':'' @ [CHR 0x22] @
                       concat (map quote_char (cmd x)) @ [CHR 0x22] @ ''}'')),
                 (c, End)]\<rparr>)
      | [] \<Rightarrow>
          conn_end gr c s = Returned (s1\<lparr>onReceiveCommand := Some c\<rparr>) \<and>
          (\<forall>y. sendCommand y (s1\<lparr>onReceiveCommand := Some c\<rparr>) =
             s1\<lparr>onReceiveCommand := None,
                 curCommand := Some \<lparr>cmd = y, cb = length (futures s1)\<rparr>,
                 futures := futures s1 @ [Pending],
                 wire := wire s1 @
                   [(c, Write (''{'' @ [CHR 0x22] @ ''cmd'' @ [CHR 0x22] @ '':'' @ [CHR 0x22] @
                          concat (map quote_char y) @ [CHR 0x22] @ ''}'')),
                    (c, End)]\<rparr>)"
    unfolding frame .
  have plain_frame: "\<forall>y. (\<forall>ch \<in> set y. 32 \<le> (of_char ch :: nat) \<and> ch \<noteq> CHR 0x22 \<and> ch \<noteq> CHR 0x5C) \<longrightarrow>
      JSON_stringify_cmd y =
        ''{'' @ [CHR 0x22] @ ''cmd'' @ [CHR 0x22] @ '':'' @ [CHR 0x22] @ y @ [CHR 0x22] @ ''}''"
    by (simp add: JSON_stringify_cmd_eq quote_chars_plain)
  from explicit plain_frame escapes show ?thesis
    by - (intro conjI; assumption)
qed

theorem conn_end_dispatches_next_witness:
  "conn_end_first getResult_example 0 unexpected_session =
     Returned (unexpected_session\<lparr>responses := [[]]\<rparr>) \<and>
   curCommand (state_of (conn_end getResult_example 0 unexpected_session)) =
     Some \<lparr>cmd = ''getSession'', cb = 0\<rparr> \<and>
   wire (state_of (conn_end getResult_example 0 unexpected_session)) =
     [(0, Write [CHR ''{'', CHR 0x22, CHR ''c'', CHR ''m'', CHR ''d'', CHR 0x22, CHR '':'',
         CHR 0x22, CHR ''g'', CHR ''e'', CHR ''t'', CHR ''S'', CHR ''e'', CHR ''s'', CHR ''s'',
         CHR ''i'', CHR ''o'', CHR ''n'', CHR 0x22, CHR ''}'']),
      (0, End)] \<and>
   conn_end_first getResult_example 0 connected_session = Returned connected_session \<and>
   state_of (conn_end getResult_example 0 connected_session) = waiting_session \<and>
   onReceiveCommand waiting_session = Some 0 \<and>
   curCommand (sendCommand ''tap'' waiting_session) = Some \<lparr>cmd = ''tap'', cb = 0\<rparr> \<and>
   wire (sendCommand ''tap'' waiting_session) =
     [(0, Write [CHR ''{'', CHR 0x22, CHR ''c'', CHR ''m'', CHR ''d'', CHR 0x22, CHR '':'',
         CHR 0x22, CHR ''t'', CHR ''a'', CHR ''p'', CHR 0x22, CHR ''}'']),
      (0, End)] \<and>
   JSON_stringify_cmd [CHR ''a'', CHR 0x22, CHR 0x5C, CHR 0x0A, CHR 0x1F, CHR ''z''] =
     [CHR ''{'', CHR 0x22, CHR ''c'', CHR ''m'', CHR ''d'', CHR 0x22, CHR '':'', CHR 0x22,
      CHR ''a'', CHR 0x5C, CHR 0x22, CHR 0x5C, CHR 0x5C, CHR 0x5C, CHR ''n'',
      CHR 0x5C, CHR ''u'', CHR ''0'', CHR ''0'', CHR ''1'', CHR ''f'', CHR ''z'',
      CHR 0x22, CHR ''}'']"
proof -
  have h1: "conn_end_first getResult_example 0 unexpected_session =
      Returned (unexpected_session\<lparr>responses := [[]]\<rparr>)"
    by (simp add: unexpected_session_eq conn_end_first_def resetBuffer_def Let_def)
  have h2: "conn_end_first getResult_example 0 connected_session = Returned connected_session"
    by (simp add: connected_session_eq conn_end_first_def resetBuffer_def Let_def)
  show ?thesis
    using conn_end_dispatches_next [OF h1] conn_end_dispatches_next [OF h2] h1 h2
    by (simp add: unexpected_session_eq connected_session_eq waiting_session_eq
        JSON_stringify_cmd_def quote_string_def quote_char_def hex_digit_def)
qed

text \<open>
  C5 fails as stated where it says that the frame is written on the current connection:
  the closure writes on the connection whose \<^verbatim>\<open>'end'\<close> event built it, and
  \<^verbatim>\<open>currentSocket\<close> is the connection accepted last. With two connections open,
  when the first one ends the frame is written on it, while the current connection is
  the second one.
\<close>

theorem dispatch_connection_counterexample:
  "currentSocket two_connections_session = Some 1 \<and>
   wire two_connections_session = [] \<and>
   wire (step getResult_example (ConnEnd 0) two_connections_session) =
     [(0, Write (JSON_stringify_cmd ''tap'')), (0, End)] \<and>
   currentSocket (step getResult_example (ConnEnd 0) two_connections_session) = Some 1"
  by (simp add: two_connections_session_eq example_defs)

subsection \<open>Identifiers are not validated\<close>

text \<open>
  C10. In a session, \<^verbatim>\<open>sendCommand\<close> of any string \<open>x\<close> creates a pending promise
  and appends the command to the tail of the queue when no hook is registered; when the
  hook is registered the command is dispatched at once, with the frame of \<open>x\<close>. And
  when a command with the identifier \<open>x\<close> is at the head of the queue, the dispatch of
  the \<^verbatim>\<open>'end'\<close> handler pops it and writes the frame of \<open>x\<close>. Nothing depends on
  \<open>x\<close>: the empty string and \<^verbatim>\<open>'#more'\<close> are treated as any other identifier.
\<close>

theorem sendCommand_any_identifier:
  assumes "s = run gr evs (UIAutoClient sk)"
  shows "let p = length (futures s); s' = sendCommand x s in
     futures s' = futures s @ [Pending] \<and>
     (case onReceiveCommand s of
        None \<Rightarrow> commandQueue s' = commandQueue s @ [\<lparr>cmd = x, cb = p\<rparr>] \<and>
               curCommand s' = curCommand s \<and> wire s' = wire s
      | Some c \<Rightarrow> commandQueue s' = [] \<and> curCommand s' = Some \<lparr>cmd = x, cb = p\<rparr> \<and>
               wire s' = wire s @ [(c, Write (JSON_stringify_cmd x)), (c, End)]) \<and>
     (\<forall>c q s0. commandQueue s0 = \<lparr>cmd = x, cb = p\<rparr> # q \<longrightarrow>
        conn_end_next c s0 =
          Returned (s0\<lparr>onReceiveCommand := None, curCommand := Some \<lparr>cmd = x, cb = p\<rparr>,
                       commandQueue := q,
                       wire := wire s0 @ [(c, Write (JSON_stringify_cmd x)), (c, End)]\<rparr>))"
proof -
  have "hook_idle s" using assms by (simp add: hook_idle_run)
  then show ?thesis
    by (auto simp: hook_idle_def conn_end_next_def onReceiveCommand_fn_def sendCommand_def
      sendCommand_executor_def Let_def split: list.splits option.splits)
qed

theorem sendCommand_any_identifier_witness:
  "onReceiveCommand waiting_session = Some 0 \<and>
   commandQueue (sendCommand ''#more'' waiting_session) = [] \<and>
   curCommand (sendCommand ''#more'' waiting_session) = Some \<lparr>cmd = ''#more'', cb = 0\<rparr> \<and>
   wire (sendCommand ''#more'' waiting_session) =
     [(0, Write (JSON_stringify_cmd ''#more'')), (0, End)] \<and>
   onReceiveCommand done_session = None \<and>
   commandQueue (sendCommand [] done_session) =
     [\<lparr>cmd = ''tap'', cb = 1\<rparr>, \<lparr>cmd = [], cb = 2\<rparr>] \<and>
   futures (sendCommand [] done_session) = [Pending, Pending, Pending]"
proof -
  have h1: "onReceiveCommand waiting_session = Some 0"
    and h2: "onReceiveCommand done_session = None"
    by (simp_all add: waiting_session_eq done_session_eq)
  show ?thesis
    using sendCommand_any_identifier [OF waiting_session_def, of "''#more''"]
      sendCommand_any_identifier [OF done_session_def, of "[]"] h1 h2
    by (simp add: Let_def waiting_session_eq done_session_eq)
qed

subsection \<open>The promise of start\<close>

text \<open>
  C4. In a session that has not been connected to, when a listening server accepts its
  first connection, the promise of the \<^verbatim>\<open>start\<close> that created the server, pending
  until then, is fulfilled with \<^verbatim>\<open>true\<close>. From then on no connection that is
  accepted changes a promise of \<^verbatim>\<open>start\<close>, and whatever happens to the session the
  promises of \<^verbatim>\<open>start\<close> stay as they are, never fulfilled again and never rejected;
  later calls of \<^verbatim>\<open>start\<close> only add promises that stay pending.
\<close>

theorem start_future_fulfilled_once:
  assumes "s = run gr evs (UIAutoClient sk)"
    and "\<not> hasConnected s"
    and "k < length (servers s)"
    and "servers s ! k = Listening"
  shows "let s1 = step gr (Accept k) s in
     startFutures s ! k = Pending \<and>
     startFutures s1 ! k = Fulfilled True \<and>
     startFutures s1 = (startFutures s)[k := Fulfilled True] \<and>
     hasConnected s1 \<and>
     (\<forall>j. startFutures (step gr (Accept j) s1) = startFutures s1) \<and>
     (\<forall>evs'. \<exists>n. startFutures (run gr evs' s1) = startFutures s1 @ replicate n Pending)"
proof -
  have "indices_ok s" and "start_pending s"
    using assms(1) by (simp_all add: indices_ok_run start_pending_run)
  with assms(2,3) have k: "k < length (startFutures s)" "startFutures s ! k = Pending"
    by (simp_all add: indices_ok_def start_pending_def)
  let ?s1 = "step gr (Accept k) s"
  from k assms(2-4) have a: "startFutures ?s1 = (startFutures s)[k := Fulfilled True]"
    and c: "hasConnected ?s1"
    by (simp_all add: accept_def settle_def Let_def)
  from c have later: "\<exists>n. startFutures (run gr evs' ?s1) = startFutures ?s1 @ replicate n Pending"
    for evs' using connected_run [of ?s1 gr evs'] by simp
  from c have again: "startFutures (step gr (Accept j) ?s1) = startFutures ?s1" for j
    by (rule accept_again)
  from k a c later again show ?thesis
    unfolding Let_def by simp
qed

theorem start_future_fulfilled_once_witness:
  "\<not> hasConnected listening_session \<and>
   servers listening_session ! 0 = Listening \<and>
   startFutures listening_session ! 0 = Pending \<and>
   startFutures (step getResult_example (Accept 0) listening_session) ! 0 = Fulfilled True \<and>
   startFutures (step getResult_example (Accept 0)
     (step getResult_example (Accept 0) listening_session)) = [Fulfilled True]"
proof -
  have h2: "\<not> hasConnected listening_session"
    and h3: "0 < length (servers listening_session)"
    and h4: "servers listening_session ! 0 = Listening"
    by (simp_all add: listening_session_eq)
  show ?thesis
    using start_future_fulfilled_once [OF listening_session_def h2 h3 h4] h2 h4
    by (simp add: Let_def listening_session_eq accept_def settle_def)
qed

text \<open>
  C6. When \<^verbatim>\<open>rimraf\<close> or \<^verbatim>\<open>mkdirp\<close> fails in \<^verbatim>\<open>start\<close> on a new client,
  the server is created and never listens, and the error is a rejection nobody handles:
  the promise that \<^verbatim>\<open>start\<close> returned is not rejected, it stays pending.
\<close>

theorem start_failure_leaves_future_pending:
  "startFutures rimraf_failed_session = [Pending] \<and>
   servers rimraf_failed_session = [Created] \<and>
   unhandled rimraf_failed_session = [Error ''EACCES''] \<and>
   startFutures mkdirp_failed_session = [Pending] \<and>
   servers mkdirp_failed_session = [Created] \<and>
   unhandled mkdirp_failed_session = [Error ''EACCES'']"
  by (simp add: rimraf_failed_session_def mkdirp_failed_session_def UIAutoClient_def start_def
      start_resume_def Let_def)

subsection \<open>shutdown\<close>

text \<open>
  C7. A session is connected to and shut down, and the server closes: the command in
  flight, the hook, the current connection and the server are all \<^verbatim>\<open>null\<close>, and a
  second \<^verbatim>\<open>shutdown\<close> changes nothing. But \<^verbatim>\<open>shutdown\<close> does not reset
  \<^verbatim>\<open>hasConnected\<close>: after a new \<^verbatim>\<open>start\<close> the new server listens and accepts a
  connection, and the promise of the new \<^verbatim>\<open>start\<close> is still pending.
\<close>

theorem restart_future_stays_pending:
  "curCommand closed_session = None \<and> onReceiveCommand closed_session = None \<and>
   currentSocket closed_session = None \<and> socketServer closed_session = None \<and>
   step getResult_example Shutdown closed_session = closed_session \<and>
   servers restarted_session = [Closed, Listening] \<and>
   conns restarted_session = [0, 1] \<and>
   hasConnected restarted_session \<and>
   startFutures restarted_session = [Fulfilled True, Pending] \<and>
   startFutures restarted_session ! 1 \<noteq> Fulfilled True"
  by (simp add: restarted_session_def closed_session_eq example_defs)

subsection \<open>One command in flight\<close>

text \<open>
  C1. \<^verbatim>\<open>curCommand\<close> holds at most one command. In a session, every step either
  writes no frame, and then leaves \<^verbatim>\<open>curCommand\<close> as it is or clears it, or writes
  exactly one frame, that of the command \<open>x\<close> which is in flight after the step. In the
  second case, if no command was in flight before the step, \<open>x\<close> was popped from the
  head of the queue (for a \<^verbatim>\<open>sendCommand\<close> that finds the hook registered, the queue
  was empty and \<open>x\<close> is the new command). If a command \<open>cur\<close> was in flight, the step is
  the \<^verbatim>\<open>'end'\<close> event of the connection the frame is written on, and either the
  result of \<open>cur\<close> was final, its promise was settled in this step and \<open>x\<close> was popped
  from the head of the queue, or more data is needed and \<open>x\<close> is the \<^verbatim>\<open>'#more'\<close>
  command with the callback of \<open>cur\<close>. So no frame of another command is written while a
  command awaits its result.
\<close>

theorem one_command_in_flight:
  assumes "s = run gr evs (UIAutoClient sk)"
    and "s' = step gr e s"
  shows "(new_writes s s' = [] \<and> (curCommand s' = curCommand s \<or> curCommand s' = None)) \<or>
     (\<exists>c x. new_writes s s' = [(c, JSON_stringify_cmd (cmd x))] \<and> curCommand s' = Some x \<and>
        (case curCommand s of
           None \<Rightarrow>
             x # commandQueue s' = commandQueue s \<or>
             (\<exists>y. e = SendCommand y \<and> onReceiveCommand s = Some c \<and>
                  x = \<lparr>cmd = y, cb = length (futures s)\<rparr> \<and>
                  commandQueue s = [] \<and> commandQueue s' = [])
         | Some cur \<Rightarrow>
             e = ConnEnd c \<and>
             (if needsMoreData (fst (gr (responses s ! (conns s ! c))))
              then x = \<lparr>cmd = MORE_COMMAND, cb = cb cur\<rparr> \<and>
                   commandQueue s' = commandQueue s \<and> futures s' = futures s
              else futures s ! cb cur = Pending \<and> futures s' ! cb cur \<noteq> Pending \<and>
                   x # commandQueue s' = commandQueue s)))"
proof -
  have idle: "hook_idle s" and cbs: "cbs_pending s"
    using assms(1) by (simp_all add: hook_idle_run cbs_pending_run)
  show ?thesis
  proof (cases e)
    case (SendCommand y)
    with idle assms(2) show ?thesis
      by (cases "onReceiveCommand s")
        (auto simp: hook_idle_def sendCommand_def sendCommand_executor_def
          onReceiveCommand_fn_def Let_def new_writes_def)
  next
    case (ConnEnd c)
    show ?thesis
    proof (cases "c < length (conns s)")
      case False
      with ConnEnd assms(2) show ?thesis by (simp add: new_writes_def)
    next
      case True
      show ?thesis
      proof (cases "curCommand s")
        case None
        with True ConnEnd assms(2) show ?thesis
          by (cases "commandQueue s")
            (auto simp: handler_defs new_writes_def Let_def)
      next
        case (Some cur)
        with cbs have p: "cb cur < length (futures s)" "futures s ! cb cur = Pending"
          by (simp_all add: cbs_pending_def cbs_ok_def in_flight_def)
        obtain r buf where g: "gr (responses s ! (conns s ! c)) = (r, buf)"
          by (cases "gr (responses s ! (conns s ! c))")
        show ?thesis
        proof (cases "needsMoreData r")
          case more: True
          with Some True ConnEnd assms(2) g show ?thesis
            by (auto simp: handler_defs new_writes_def Let_def)
        next
          case final: False
          with Some True ConnEnd assms(2) g p show ?thesis
            by (cases "commandQueue s")
              (auto simp: handler_defs settle_def new_writes_def Let_def
                split: option.splits)
        qed
      qed
    qed
  qed (use assms(2) in \<open>auto simp: start_def start_resume_def accept_def conn_data_def
        conn_close_def shutdown_def shutdown_resume_def safeShutdown_def
        safeShutdown_resume_def Let_def new_writes_def
        split: option.splits fs_outcome.splits listen_outcome.splits\<close>)
qed

theorem one_command_in_flight_witness:
  "new_writes done_session (step getResult_example (ConnEnd 1) done_session) =
     [(1, JSON_stringify_cmd ''tap'')] \<and>
   curCommand done_session = Some \<lparr>cmd = ''getSession'', cb = 0\<rparr> \<and>
   curCommand (step getResult_example (ConnEnd 1) done_session) = Some \<lparr>cmd = ''tap'', cb = 1\<rparr> \<and>
   futures (step getResult_example (ConnEnd 1) done_session) ! 0 = Fulfilled (JStr ''abc'') \<and>
   commandQueue (step getResult_example (ConnEnd 1) done_session) = []"
  using one_command_in_flight [OF done_session_def refl, of "ConnEnd 1"]
  by (simp add: done_session_eq example_defs new_writes_def)

end
